theory Spec2Isabelle
  imports Complex_Main "HOL-Library.Char_ord" "HOL-Library.List_Lexorder"
begin

section \<open>Numbers\<close>

text \<open>
  Money columns are \<open>decimal(10, 2)\<close>; the code reads them with \<open>Number(...)\<close>. The model
  keeps such values as exact rationals (rounding of IEEE doubles is not modelled). The one
  place where a JavaScript number stops being finite in this code is a division, so the
  result of a division is a \<open>jsnum\<close>: finite, an infinity or NaN.
\<close>

datatype jsnum = Fin rat | PosInf | NegInf | NaN

text \<open>\<open>a / b\<close> on finite operands.\<close>

definition js_div :: "rat \<Rightarrow> rat \<Rightarrow> jsnum" where
  "js_div a b =
     (if b = 0 then (if a = 0 then NaN else if 0 < a then PosInf else NegInf)
      else Fin (a / b))"

text \<open>\<open>x * c\<close> with a finite right operand.\<close>

fun js_times :: "jsnum \<Rightarrow> rat \<Rightarrow> jsnum" where
  "js_times (Fin a) c = Fin (a * c)"
| "js_times PosInf c = (if 0 < c then PosInf else if c < 0 then NegInf else NaN)"
| "js_times NegInf c = (if 0 < c then NegInf else if c < 0 then PosInf else NaN)"
| "js_times NaN c = NaN"

text \<open>\<open>x >= c\<close> with a finite right operand; every comparison with NaN is false.\<close>

fun js_ge :: "jsnum \<Rightarrow> rat \<Rightarrow> bool" where
  "js_ge (Fin a) c = (c \<le> a)"
| "js_ge PosInf c = True"
| "js_ge NegInf c = False"
| "js_ge NaN c = False"

text \<open>\<open>Math.min(c, x)\<close> with a finite first operand.\<close>

fun js_min :: "rat \<Rightarrow> jsnum \<Rightarrow> jsnum" where
  "js_min c (Fin a) = Fin (min c a)"
| "js_min c PosInf = Fin c"
| "js_min c NegInf = NegInf"
| "js_min c NaN = NaN"

fun is_finite :: "jsnum \<Rightarrow> bool" where
  "is_finite (Fin a) = True"
| "is_finite PosInf = False"
| "is_finite NegInf = False"
| "is_finite NaN = False"

section \<open>Dates\<close>

text \<open>
  A \<open>Date\<close> object is modelled by its local calendar fields, as \<open>getFullYear\<close>,
  \<open>getMonth\<close> (0 to 11), \<open>getDate\<close> and the time within the day (milliseconds) read
  them; comparisons go through the time value, built as ECMAScript's \<open>MakeDay\<close> and
  \<open>MakeDate\<close> build it. The local time zone is taken to be UTC without daylight saving.
\<close>

record jsdate =
  dyear :: int
  dmonth :: int
  dday :: int
  dtime :: int

definition msPerDay :: int where
  "msPerDay = 86400000"

definition DayFromYear :: "int \<Rightarrow> int" where
  "DayFromYear y =
     365 * (y - 1970) + (y - 1969) div 4 - (y - 1901) div 100 + (y - 1601) div 400"

definition InLeapYear :: "int \<Rightarrow> bool" where
  "InLeapYear y = ((y mod 4 = 0 \<and> y mod 100 \<noteq> 0) \<or> y mod 400 = 0)"

text \<open>Number of days of a year that lie before its month \<open>m\<close> (0 to 11).\<close>

definition month_start :: "int \<Rightarrow> bool \<Rightarrow> int" where
  "month_start m leap =
     (if m = 0 then 0 else if m = 1 then 31
      else (if leap then 1 else 0) +
        (if m = 2 then 59 else if m = 3 then 90 else if m = 4 then 120
         else if m = 5 then 151 else if m = 6 then 181 else if m = 7 then 212
         else if m = 8 then 243 else if m = 9 then 273 else if m = 10 then 304
         else 334))"

text \<open>
  \<open>MakeDay(year, month, date)\<close>: a month outside 0 to 11 carries into the year, a date
  outside the month carries into the neighbouring months.
\<close>

definition MakeDay :: "int \<Rightarrow> int \<Rightarrow> int \<Rightarrow> int" where
  "MakeDay y m d =
     (let ym = y + m div 12; mn = m mod 12
      in DayFromYear ym + month_start mn (InLeapYear ym) + d - 1)"

definition MakeDate :: "int \<Rightarrow> int \<Rightarrow> int" where
  "MakeDate dy tm = dy * msPerDay + tm"

definition DaysInMonth :: "int \<Rightarrow> int \<Rightarrow> int" where
  "DaysInMonth y m = MakeDay y (m + 1) 1 - MakeDay y m 1"

definition time_value :: "jsdate \<Rightarrow> int" where
  "time_value d = MakeDate (MakeDay (dyear d) (dmonth d) (dday d)) (dtime d)"

text \<open>The fields of a \<open>Date\<close> object are always those of a real calendar day.\<close>

definition valid_date :: "jsdate \<Rightarrow> bool" where
  "valid_date d =
     (0 \<le> dmonth d \<and> dmonth d \<le> 11 \<and> 1 \<le> dday d \<and>
      dday d \<le> DaysInMonth (dyear d) (dmonth d) \<and> 0 \<le> dtime d \<and> dtime d < msPerDay)"

text \<open>
  \<open>new Date(year, month, date)\<close>, at 00:00 local time. A year from 0 to 99 means
  1900 + year.
\<close>

definition Date_local :: "int \<Rightarrow> int \<Rightarrow> int \<Rightarrow> int" where
  "Date_local y m d =
     (let yr = (if 0 \<le> y \<and> y \<le> 99 then 1900 + y else y)
      in MakeDate (MakeDay yr m d) 0)"

section \<open>Goal progress\<close>

text \<open>
  \<^verbatim>\<open>
  export function getProgressPercentage(current: number, target: number): number {
    if (target === 0) return 0;
    return Math.min(100, (current / target) * 100);
  }
  \<close>
  The callers pass \<open>Number(goal.currentAmount)\<close> and \<open>Number(goal.targetAmount)\<close>, two
  decimal columns.
\<close>

definition getProgressPercentage :: "rat \<Rightarrow> rat \<Rightarrow> jsnum" where
  "getProgressPercentage current target =
     (if target = 0 then Fin 0
      else js_min 100 (js_times (js_div current target) 100))"

section \<open>Data model\<close>

text \<open>The columns of the tables \<open>expenses\<close>, \<open>categories\<close> and \<open>budgets\<close> that the analytics read.\<close>

datatype expense_type = Expense | Income

record expense =
  userId :: string
  amount :: rat
  etype :: expense_type
  categoryId :: "string option"
  date :: jsdate

record category_row =
  cat_id :: string
  cat_name :: string
  cat_color :: string

record budget =
  budget_categoryId :: "string option"
  budget_amount :: rat
  period :: string
  startDate :: jsdate
  alertThreshold :: "rat option"

text \<open>Truthiness of a nullable string: \<open>null\<close> and the empty string are falsy.\<close>

fun truthy :: "string option \<Rightarrow> bool" where
  "truthy None = False"
| "truthy (Some s) = (s \<noteq> [])"

text \<open>\<open>x || dflt\<close> on a nullable string.\<close>

definition str_or :: "string option \<Rightarrow> string \<Rightarrow> string" where
  "str_or x dflt = (case x of None \<Rightarrow> dflt | Some s \<Rightarrow> if s = [] then dflt else s)"

text \<open>\<open>Number(x)\<close> on a nullable decimal column: \<open>Number(null)\<close> is 0.\<close>

fun Number_nullable :: "rat option \<Rightarrow> rat" where
  "Number_nullable None = 0"
| "Number_nullable (Some r) = r"

section \<open>Budget evaluator\<close>

text \<open>
  \<open>calculateBudgetProgress\<close> of the budget page (\<open>client/src/pages/Budget.tsx\<close>), without
  its type annotations:
  \<^verbatim>\<open>
    switch (budget.period) {
      case "weekly":
        endDate = new Date(startDate);
        endDate.setDate(startDate.getDate() + 7);
        break;
      case "yearly":
        endDate = new Date(startDate);
        endDate.setFullYear(startDate.getFullYear() + 1);
        break;
      case "monthly":
      default:
        endDate = new Date(startDate);
        endDate.setMonth(startDate.getMonth() + 1);
        break;
    }
    const categoryExpenses = expenses.filter((expense: any) => {
      const expenseDate = new Date(expense.date);
      return (
        expense.type === "expense" &&
        expenseDate >= startDate &&
        expenseDate <= endDate &&
        (budget.categoryId ? expense.categoryId === budget.categoryId : true)
      );
    });
    const spent = categoryExpenses.reduce((sum, expense) => sum + Number(expense.amount), 0);
    const budgetAmount = Number(budget.amount);
    const percentage = budgetAmount > 0 ? (spent / budgetAmount) * 100 : 0;
    const remaining = budgetAmount - spent;
    const alertThreshold = Number(budget.alertThreshold) * 100;
    let status = "on-track";
    if (percentage >= 100) status = "over-budget";
    else if (percentage >= alertThreshold) status = "warning";
  \<close>
  \<open>setDate\<close>, \<open>setFullYear\<close> and \<open>setMonth\<close> rebuild the time value with \<open>MakeDay\<close> from
  the fields of the date and keep the time within the day.
\<close>

datatype budget_status = on_track | warning | over_budget

record budget_progress =
  spent :: rat
  percentage :: jsnum
  remaining :: rat
  status :: budget_status

definition budget_endDate :: "budget \<Rightarrow> int" where
  "budget_endDate b =
     (let s = startDate b
      in if period b = ''weekly''
           then MakeDate (MakeDay (dyear s) (dmonth s) (dday s + 7)) (dtime s)
         else if period b = ''yearly''
           then MakeDate (MakeDay (dyear s + 1) (dmonth s) (dday s)) (dtime s)
         else MakeDate (MakeDay (dyear s) (dmonth s + 1) (dday s)) (dtime s))"

text \<open>The predicate of \<open>expenses.filter(...)\<close>.\<close>

definition in_budget :: "budget \<Rightarrow> expense \<Rightarrow> bool" where
  "in_budget b e =
     (etype e = Expense \<and>
      time_value (startDate b) \<le> time_value (date e) \<and>
      time_value (date e) \<le> budget_endDate b \<and>
      (if truthy (budget_categoryId b) then categoryId e = budget_categoryId b else True))"

text \<open>
  The first argument is the result of the expenses query, \<open>None\<close> while it is not loaded
  (\<open>if (!expenses) return ...\<close>; an empty array is truthy).
\<close>

definition calculateBudgetProgress :: "expense list option \<Rightarrow> budget \<Rightarrow> budget_progress" where
  "calculateBudgetProgress expenses b =
     (case expenses of
        None \<Rightarrow> \<lparr>spent = 0, percentage = Fin 0, remaining = 0, status = on_track\<rparr>
      | Some es \<Rightarrow>
          (let categoryExpenses = filter (in_budget b) es;
               spent = foldl (\<lambda>sum e. sum + amount e) 0 categoryExpenses;
               budgetAmount = budget_amount b;
               percentage =
                 (if 0 < budgetAmount then js_times (js_div spent budgetAmount) 100 else Fin 0);
               remaining = budgetAmount - spent;
               alertThreshold = Number_nullable (alertThreshold b) * 100
           in \<lparr>spent = spent, percentage = percentage, remaining = remaining,
                status =
                  (if js_ge percentage 100 then over_budget
                   else if js_ge percentage alertThreshold then warning
                   else on_track)\<rparr>))"

section \<open>Dashboard statistics\<close>

text \<open>
  \<open>getDashboardStats\<close> of the storage (\<open>server/routes.ts\<close>) runs four queries of the shape
  \<open>SELECT COALESCE(SUM(amount), 0) FROM expenses WHERE ...\<close> (the queries are summarised
  in the comments):
  \<^verbatim>\<open>
    const firstDayThisMonth = new Date(now.getFullYear(), now.getMonth(), 1);
    const firstDayLastMonth = new Date(now.getFullYear(), now.getMonth() - 1, 1);
    const lastDayLastMonth = new Date(now.getFullYear(), now.getMonth(), 0);
    // this month, for "expense" and for "income":
    //   and(eq(userId, userId), eq(type, ...), gte(date, firstDayThisMonth))
    // last month, for "expense" and for "income":
    //   and(eq(userId, userId), eq(type, ...),
    //       between(date, firstDayLastMonth, lastDayLastMonth))
    const totalBalance = thisMonthInc - thisMonthExp;
    const expenseChange =
      lastMonthExp > 0 ? ((thisMonthExp - lastMonthExp) / lastMonthExp) * 100 : 0;
    const incomeChange =
      lastMonthInc > 0 ? ((thisMonthInc - lastMonthInc) / lastMonthInc) * 100 : 0;
    const savingsRate =
      thisMonthInc > 0 ? ((thisMonthInc - thisMonthExp) / thisMonthInc) * 100 : 0;
  \<close>
  The table is the list of its rows, the current time is a parameter, and
  \<open>between(x, a, b)\<close> is \<open>a \<le> x \<and> x \<le> b\<close>.
\<close>

definition sum_where :: "(expense \<Rightarrow> bool) \<Rightarrow> expense list \<Rightarrow> rat" where
  "sum_where P rows = sum_list (map amount (filter P rows))"

definition firstDayThisMonth :: "jsdate \<Rightarrow> int" where
  "firstDayThisMonth now = Date_local (dyear now) (dmonth now) 1"

definition firstDayLastMonth :: "jsdate \<Rightarrow> int" where
  "firstDayLastMonth now = Date_local (dyear now) (dmonth now - 1) 1"

definition lastDayLastMonth :: "jsdate \<Rightarrow> int" where
  "lastDayLastMonth now = Date_local (dyear now) (dmonth now) 0"

definition thisMonthExp :: "jsdate \<Rightarrow> string \<Rightarrow> expense list \<Rightarrow> rat" where
  "thisMonthExp now uid rows =
     sum_where (\<lambda>e. userId e = uid \<and> etype e = Expense \<and>
                  firstDayThisMonth now \<le> time_value (date e)) rows"

definition thisMonthInc :: "jsdate \<Rightarrow> string \<Rightarrow> expense list \<Rightarrow> rat" where
  "thisMonthInc now uid rows =
     sum_where (\<lambda>e. userId e = uid \<and> etype e = Income \<and>
                  firstDayThisMonth now \<le> time_value (date e)) rows"

definition lastMonthExp :: "jsdate \<Rightarrow> string \<Rightarrow> expense list \<Rightarrow> rat" where
  "lastMonthExp now uid rows =
     sum_where (\<lambda>e. userId e = uid \<and> etype e = Expense \<and>
                  firstDayLastMonth now \<le> time_value (date e) \<and>
                  time_value (date e) \<le> lastDayLastMonth now) rows"

definition lastMonthInc :: "jsdate \<Rightarrow> string \<Rightarrow> expense list \<Rightarrow> rat" where
  "lastMonthInc now uid rows =
     sum_where (\<lambda>e. userId e = uid \<and> etype e = Income \<and>
                  firstDayLastMonth now \<le> time_value (date e) \<and>
                  time_value (date e) \<le> lastDayLastMonth now) rows"

record dashboard_stats =
  totalBalance :: rat
  thisMonthExpenses :: rat
  thisMonthIncome :: rat
  expenseChange :: jsnum
  incomeChange :: jsnum
  savingsRate :: jsnum

definition getDashboardStats :: "jsdate \<Rightarrow> string \<Rightarrow> expense list \<Rightarrow> dashboard_stats" where
  "getDashboardStats now uid rows =
     (let tme = thisMonthExp now uid rows;
          tmi = thisMonthInc now uid rows;
          lme = lastMonthExp now uid rows;
          lmi = lastMonthInc now uid rows
      in \<lparr>totalBalance = tmi - tme,
          thisMonthExpenses = tme,
          thisMonthIncome = tmi,
          expenseChange = (if 0 < lme then js_times (js_div (tme - lme) lme) 100 else Fin 0),
          incomeChange = (if 0 < lmi then js_times (js_div (tmi - lmi) lmi) 100 else Fin 0),
          savingsRate = (if 0 < tmi then js_times (js_div (tmi - tme) tmi) 100 else Fin 0)\<rparr>)"

section \<open>Category breakdown\<close>

text \<open>
  \<open>getCategoryBreakdown\<close> of the storage (the query is summarised in the comment):
  \<^verbatim>\<open>
    switch (period) {
      case "thisMonth": startDate = new Date(now.getFullYear(), now.getMonth(), 1); break;
      case "lastMonth": startDate = new Date(now.getFullYear(), now.getMonth() - 1, 1); break;
      case "thisYear":  startDate = new Date(now.getFullYear(), 0, 1); break;
      default:          startDate = new Date(now.getFullYear(), now.getMonth(), 1);
    }
    // select categoryId, categories.name, categories.color, SUM(amount), COUNT(*)
    // from expenses left join categories on expenses.categoryId = categories.id
    // where userId = userId and type = "expense" and date >= startDate
    // group by expenses.categoryId, categories.name, categories.color
    const totalExpenses = breakdown.reduce((sum, item) => sum + Number(item.total), 0);
    return breakdown.map(item => ({
      category: item.categoryName || "Uncategorized",
      amount: Number(item.total),
      percentage: totalExpenses > 0 ? (Number(item.total) / totalExpenses) * 100 : 0,
      color: item.categoryColor || "#6B7280",
      transactionCount: Number(item.count)
    }));
  \<close>
  \<open>categories.id\<close> is the primary key, so an expense joins at most one category and the
  group key is the expense's \<open>categoryId\<close>. The query bounds the date from below only. SQL
  leaves the order of the groups open; the model lists them in the order of their first
  row. The function has no failing branch; the result type keeps room for the error the
  specification names, so that its absence can be stated.
\<close>

datatype error = InvalidPeriodError

definition period_startDate :: "jsdate \<Rightarrow> string \<Rightarrow> int" where
  "period_startDate now p =
     (if p = ''thisMonth'' then Date_local (dyear now) (dmonth now) 1
      else if p = ''lastMonth'' then Date_local (dyear now) (dmonth now - 1) 1
      else if p = ''thisYear'' then Date_local (dyear now) 0 1
      else Date_local (dyear now) (dmonth now) 1)"

record breakdown_row =
  categoryName :: "string option"
  categoryColor :: "string option"
  row_total :: rat
  row_count :: nat

record breakdown_item =
  category :: string
  item_amount :: rat
  item_percentage :: jsnum
  color :: string
  transactionCount :: nat

definition breakdown_rows ::
  "int \<Rightarrow> category_row list \<Rightarrow> string \<Rightarrow> expense list \<Rightarrow> breakdown_row list" where
  "breakdown_rows start cats uid rows =
     (let sel = filter (\<lambda>e. userId e = uid \<and> etype e = Expense \<and>
                              start \<le> time_value (date e)) rows
      in map (\<lambda>k.
            (let c = (case k of None \<Rightarrow> None | Some i \<Rightarrow> find (\<lambda>c. cat_id c = i) cats);
                 grp = filter (\<lambda>e. categoryId e = k) sel
             in \<lparr>categoryName = map_option cat_name c,
                 categoryColor = map_option cat_color c,
                 row_total = sum_list (map amount grp),
                 row_count = length grp\<rparr>))
          (remdups (map categoryId sel)))"

definition getCategoryBreakdown ::
  "jsdate \<Rightarrow> category_row list \<Rightarrow> string \<Rightarrow> expense list \<Rightarrow> string
     \<Rightarrow> error + breakdown_item list" where
  "getCategoryBreakdown now cats uid rows p =
     (let breakdown = breakdown_rows (period_startDate now p) cats uid rows;
          totalExpenses = foldl (\<lambda>sum item. sum + row_total item) 0 breakdown
      in Inr (map (\<lambda>item.
                \<lparr>category = str_or (categoryName item) ''Uncategorized'',
                 item_amount = row_total item,
                 item_percentage =
                   (if 0 < totalExpenses then js_times (js_div (row_total item) totalExpenses) 100
                    else Fin 0),
                 color = str_or (categoryColor item) ''#6B7280'',
                 transactionCount = row_count item\<rparr>) breakdown))"


text \<open>
  The route \<open>/api/dashboard/category-breakdown\<close>: \<open>req.query.period as string || "thisMonth"\<close>
  replaces a missing or empty parameter only.
\<close>

definition category_breakdown_route ::
  "jsdate \<Rightarrow> category_row list \<Rightarrow> string \<Rightarrow> expense list \<Rightarrow> string option
     \<Rightarrow> error + breakdown_item list" where
  "category_breakdown_route now cats uid rows q =
     getCategoryBreakdown now cats uid rows (str_or q ''thisMonth'')"

section \<open>Windows in the words of the specification\<close>




section \<open>Spending trends\<close>

text \<open>
  \<open>getSpendingTrends\<close> of the storage builds one statement with drizzle, awaits its rows and
  adds \<open>netSavings\<close> to each (the two long templates are broken over two lines here):
  \<^verbatim>\<open>
    const trends = await db
      .select({
        month: sql<string>`TO_CHAR(${expenses.date}, 'YYYY-MM')`,
        totalExpenses: sql<number>`SUM(CASE WHEN ${expenses.type} = 'expense'
                                   THEN ${expenses.amount} ELSE 0 END)`,
        totalIncome: sql<number>`SUM(CASE WHEN ${expenses.type} = 'income'
                                 THEN ${expenses.amount} ELSE 0 END)`
      })
      .from(expenses)
      .where(and(eq(expenses.userId, userId),
                 gte(expenses.date, sql`NOW() - INTERVAL '${months} months'`)))
      .groupBy(sql`TO_CHAR(${expenses.date}, 'YYYY-MM')`)
      .orderBy(sql`TO_CHAR(${expenses.date}, 'YYYY-MM')`);

    return trends.map(trend => ({
      month: trend.month,
      totalExpenses: Number(trend.totalExpenses),
      totalIncome: Number(trend.totalIncome),
      netSavings: Number(trend.totalIncome) - Number(trend.totalExpenses)
    }));
  \<close>
  In a \<open>sql\<close> template a column is written into the statement by its name, and any other
  value becomes the next placeholder \<open>$n\<close> and joins the values bound to the statement.
  \<open>userId\<close> and \<open>months\<close> are such values; \<open>months\<close> stands between the apostrophes of a
  literal.
\<close>

datatype sql_value = SqlText string | SqlInt int

datatype sql_chunk = Raw string | Column string | Value sql_value

text \<open>The decimal digits of a number.\<close>

fun dec :: "nat \<Rightarrow> string" where
  "dec n = (if n < 10 then [''0123456789'' ! n]
            else dec (n div 10) @ [''0123456789'' ! (n mod 10)])"

declare dec.simps [simp del]

text \<open>
  The statement and the bound values that drizzle hands to the driver; \<open>n\<close> counts the
  values bound so far.
\<close>

fun render :: "nat \<Rightarrow> sql_chunk list \<Rightarrow> string \<times> sql_value list" where
  "render n [] = ([], [])"
| "render n (Raw s # cs) = (case render n cs of (t, vs) \<Rightarrow> (s @ t, vs))"
| "render n (Column c # cs) = (case render n cs of (t, vs) \<Rightarrow> (c @ t, vs))"
| "render n (Value v # cs) =
     (case render (Suc n) cs of (t, vs) \<Rightarrow> (''$'' @ dec (Suc n) @ t, v # vs))"

definition apostrophe :: char where
  "apostrophe = CHR 0x27"

text \<open>
  The parameters PostgreSQL finds in a statement: the placeholders outside quoted literals
  (\<open>lit\<close> tells whether the scan is inside one). Within a literal, \<open>$2\<close> is two characters
  of text. Each placeholder occurs once in the statements built here, so their number is
  the number of values the statement asks for.
\<close>

fun placeholders :: "bool \<Rightarrow> string \<Rightarrow> nat" where
  "placeholders lit [] = 0"
| "placeholders lit (c # cs) =
     (if c = apostrophe then placeholders (\<not> lit) cs
      else if c = CHR ''$'' \<and> \<not> lit then Suc (placeholders lit cs)
      else placeholders lit cs)"

text \<open>
  PostgreSQL refuses to bind a statement to a number of values other than the number of
  its parameters (\<open>bind message supplies 2 parameters, but prepared statement requires 1\<close>).
  This is the check modelled; a statement may be refused earlier still, as one whose
  literal \<open>'$2 months'\<close> is no interval, and the call fails either way. How the database
  answers a statement it accepts (the table, the clock, the grouping and the ordering are
  its own) is the parameter \<open>answer\<close>.
\<close>

datatype db_error = BindMismatch nat nat

definition execute ::
  "(string \<Rightarrow> sql_value list \<Rightarrow> db_error + 'r list) \<Rightarrow> string \<times> sql_value list
     \<Rightarrow> db_error + 'r list" where
  "execute answer q =
     (case q of (statement, vals) \<Rightarrow>
        if placeholders False statement \<noteq> length vals
        then Inl (BindMismatch (length vals) (placeholders False statement))
        else answer statement vals)"

text \<open>The statement of \<open>getSpendingTrends\<close>, column and table names without their quoting.\<close>

definition spending_trends_sql :: "string \<Rightarrow> int \<Rightarrow> sql_chunk list" where
  "spending_trends_sql uid months =
     [Raw ''select TO_CHAR('', Column ''expenses.date'', Raw '', 'YYYY-MM'), '',
      Raw ''SUM(CASE WHEN '', Column ''expenses.type'', Raw '' = 'expense' THEN '',
      Column ''expenses.amount'', Raw '' ELSE 0 END), '',
      Raw ''SUM(CASE WHEN '', Column ''expenses.type'', Raw '' = 'income' THEN '',
      Column ''expenses.amount'', Raw '' ELSE 0 END) '',
      Raw ''from expenses where ('', Column ''expenses.user_id'', Raw '' = '',
      Value (SqlText uid),
      Raw '' and '', Column ''expenses.date'', Raw '' >= '',
      Raw (''NOW() - INTERVAL '' @ [apostrophe]), Value (SqlInt months), Raw '' months') '',
      Raw ''group by TO_CHAR('', Column ''expenses.date'', Raw '', 'YYYY-MM') '',
      Raw ''order by TO_CHAR('', Column ''expenses.date'', Raw '', 'YYYY-MM')'']"

text \<open>A row of the answer, its sums read with \<open>Number(...)\<close>, and an entry of the result.\<close>

record trend_row =
  q_month :: string
  q_totalExpenses :: rat
  q_totalIncome :: rat

record trend =
  month :: string
  totalExpenses :: rat
  totalIncome :: rat
  netSavings :: rat

definition trend_entry :: "trend_row \<Rightarrow> trend" where
  "trend_entry t =
     \<lparr>month = q_month t,
      totalExpenses = q_totalExpenses t,
      totalIncome = q_totalIncome t,
      netSavings = q_totalIncome t - q_totalExpenses t\<rparr>"

definition getSpendingTrends ::
  "(string \<Rightarrow> sql_value list \<Rightarrow> db_error + trend_row list) \<Rightarrow> string \<Rightarrow> int
     \<Rightarrow> db_error + trend list" where
  "getSpendingTrends answer uid months =
     (case execute answer (render 0 (spending_trends_sql uid months)) of
        Inl e \<Rightarrow> Inl e
      | Inr trends \<Rightarrow> Inr (map trend_entry trends))"


section \<open>Example data\<close>

text \<open>
  Concrete dates, expenses and budgets on which the properties below are evaluated. Months
  count from 0, as \<open>getMonth\<close> does: \<open>dmonth = 2\<close> is March, \<open>dmonth = 3\<close> is April. Times
  are milliseconds after 00:00: \<open>43200000\<close> is 12:00 and \<open>54000000\<close> is 15:00.
\<close>

definition april_now :: jsdate where
  "april_now = \<lparr>dyear = 2024, dmonth = 3, dday = 15, dtime = 43200000\<rparr>"

definition spend_on :: "int \<Rightarrow> int \<Rightarrow> int \<Rightarrow> rat \<Rightarrow> expense" where
  "spend_on y m d a =
     \<lparr>userId = ''u1'', amount = a, etype = Expense, categoryId = None,
      date = \<lparr>dyear = y, dmonth = m, dday = d, dtime = 0\<rparr>\<rparr>"


definition march_budget :: budget where
  "march_budget =
     \<lparr>budget_categoryId = None, budget_amount = 200, period = ''monthly'',
      startDate = \<lparr>dyear = 2024, dmonth = 2, dday = 1, dtime = 0\<rparr>,
      alertThreshold = Some (4 / 5)\<rparr>"

definition free_budget :: budget where
  "free_budget =
     \<lparr>budget_categoryId = None, budget_amount = 0, period = ''monthly'',
      startDate = \<lparr>dyear = 2024, dmonth = 2, dday = 1, dtime = 0\<rparr>,
      alertThreshold = Some (4 / 5)\<rparr>"

definition spend_in :: "string \<Rightarrow> int \<Rightarrow> int \<Rightarrow> int \<Rightarrow> rat \<Rightarrow> expense" where
  "spend_in c y m d a =
     \<lparr>userId = ''u1'', amount = a, etype = Expense, categoryId = Some c,
      date = \<lparr>dyear = y, dmonth = m, dday = d, dtime = 0\<rparr>\<rparr>"

definition march_now :: jsdate where
  "march_now = \<lparr>dyear = 2024, dmonth = 2, dday = 25, dtime = 0\<rparr>"

definition some_categories :: "category_row list" where
  "some_categories =
     [\<lparr>cat_id = ''c1'', cat_name = ''Food'', cat_color = ''#EF4444''\<rparr>,
      \<lparr>cat_id = ''c2'', cat_name = ''Transport'', cat_color = ''#3B82F6''\<rparr>]"

definition march_rows :: "expense list" where
  "march_rows =
     [spend_in ''c1'' 2024 2 5 100, spend_in ''c1'' 2024 2 20 50, spend_in ''c2'' 2024 2 10 30]"

definition late_march :: expense where
  "late_march =
     \<lparr>userId = ''u1'', amount = 100, etype = Expense, categoryId = None,
      date = \<lparr>dyear = 2024, dmonth = 2, dday = 31, dtime = 54000000\<rparr>\<rparr>"





section \<open>Auxiliary facts\<close>

subsection \<open>Sums\<close>

lemma foldl_plus_sum_list:
  "foldl (\<lambda>sum x. sum + f x) a xs = a + sum_list (map f xs)"
  by (induction xs arbitrary: a) (simp_all add: add.assoc)


subsection \<open>The fields of a budget's progress\<close>

lemma spent_sum:
  "spent (calculateBudgetProgress (Some es) b) = sum_list (map amount (filter (in_budget b) es))"
  by (simp add: calculateBudgetProgress_def Let_def foldl_plus_sum_list)

lemma percentage_eq:
  "percentage (calculateBudgetProgress (Some es) b) =
     (if 0 < budget_amount b
      then Fin (spent (calculateBudgetProgress (Some es) b) / budget_amount b * 100)
      else Fin 0)"
  by (simp add: calculateBudgetProgress_def Let_def js_div_def)

lemma status_eq:
  "status (calculateBudgetProgress (Some es) b) =
     (if js_ge (percentage (calculateBudgetProgress (Some es) b)) 100 then over_budget
      else if js_ge (percentage (calculateBudgetProgress (Some es) b))
                (Number_nullable (alertThreshold b) * 100) then warning
      else on_track)"
  by (simp add: calculateBudgetProgress_def Let_def)

lemma remaining_eq:
  "remaining (calculateBudgetProgress (Some es) b) =
     budget_amount b - spent (calculateBudgetProgress (Some es) b)"
  by (simp add: calculateBudgetProgress_def Let_def)

subsection \<open>The rows of the breakdown\<close>



subsection \<open>Calendar arithmetic\<close>

text \<open>A later month or year never gives an earlier day, so a budget's window is not empty.\<close>

lemma DayFromYear_step: "DayFromYear y + 364 \<le> DayFromYear (y + 1)"
proof -
  have a: "(y - 1969) div 4 \<le> (y + 1 - 1969) div 4"
    by (rule zdiv_mono1) simp_all
  have "(y + 1 - 1901) div 100 \<le> (y - 1901 + 100) div 100"
    by (rule zdiv_mono1) simp_all
  then have b: "(y + 1 - 1901) div 100 \<le> (y - 1901) div 100 + 1"
    by simp
  have c: "(y - 1601) div 400 \<le> (y + 1 - 1601) div 400"
    by (rule zdiv_mono1) simp_all
  have "365 * (y - 1970) + p - q + r + 364 \<le> 365 * (y + 1 - 1970) + p' - q' + r'"
    if "p \<le> p'" and "q' \<le> q + 1" and "r \<le> r'" for p p' q q' r r' :: int
    using that by (simp add: algebra_simps)
  from this [OF a b c] show ?thesis
    unfolding DayFromYear_def .
qed

lemma month_start_leap: "month_start m True \<le> month_start m False + 1 \<and> month_start m False \<le> month_start m True"
  unfolding month_start_def by simp

lemma month_start_step:
  "0 \<le> m \<Longrightarrow> m < 11 \<Longrightarrow> month_start m l \<le> month_start (m + 1) l"
  unfolding month_start_def by (simp; linarith)

lemma next_month_carry:
  fixes m :: int
  assumes "m mod 12 = 11"
  shows "(m + 1) mod 12 = 0" and "(m + 1) div 12 = m div 12 + 1"
proof -
  define q where "q = m div 12"
  have "m = 12 * q + m mod 12" by (simp add: q_def)
  with assms have e: "m + 1 = 12 * (q + 1) + 0" by simp
  show "(m + 1) mod 12 = 0"
    by (rule int_mod_pos_eq [OF e]) simp_all
  show "(m + 1) div 12 = m div 12 + 1"
    unfolding q_def [symmetric] by (rule int_div_pos_eq [OF e]) simp_all
qed

lemma next_month_same_year:
  fixes m :: int
  assumes "m mod 12 \<noteq> 11"
  shows "(m + 1) mod 12 = m mod 12 + 1" and "(m + 1) div 12 = m div 12"
proof -
  define q where "q = m div 12"
  define r where "r = m mod 12"
  have r: "0 \<le> r" "r < 12" by (simp_all add: r_def)
  with assms have r1: "0 \<le> r + 1" "r + 1 < 12" by (simp_all add: r_def)
  have "m = 12 * q + r" by (simp add: q_def r_def)
  then have e: "m + 1 = 12 * q + (r + 1)" by simp
  show "(m + 1) mod 12 = m mod 12 + 1"
    unfolding r_def [symmetric] by (rule int_mod_pos_eq [OF e r1])
  show "(m + 1) div 12 = m div 12"
    unfolding q_def [symmetric] by (rule int_div_pos_eq [OF e r1])
qed

lemma MakeDay_next_month: "MakeDay y m d \<le> MakeDay y (m + 1) d"
proof (cases "m mod 12 = 11")
  case True
  have "month_start 11 l \<le> 335" for l
    by (simp add: month_start_def)
  from this [of "InLeapYear (y + m div 12)"] DayFromYear_step [of "y + m div 12"]
  have "DayFromYear (y + m div 12) + month_start 11 (InLeapYear (y + m div 12))
          \<le> DayFromYear (y + m div 12 + 1) + month_start 0 (InLeapYear (y + m div 12 + 1))"
    by (simp add: month_start_def)
  then show ?thesis
    by (simp add: MakeDay_def Let_def next_month_carry [OF True] True add.assoc)
next
  case False
  have c: "0 \<le> m mod 12" "m mod 12 < 11"
    using False by simp_all
  from month_start_step [OF c, of "InLeapYear (y + m div 12)"] show ?thesis
    by (simp add: MakeDay_def Let_def next_month_same_year [OF False])
qed

lemma MakeDay_next_year: "MakeDay y m d \<le> MakeDay (y + 1) m d"
proof -
  have eq: "y + 1 + m div 12 = y + m div 12 + 1" by simp
  have "month_start (m mod 12) l \<le> month_start (m mod 12) l' + 1" for l l'
    using month_start_leap [of "m mod 12"] by (cases l; cases l') simp_all
  from this [of "InLeapYear (y + m div 12)" "InLeapYear (y + m div 12 + 1)"]
    DayFromYear_step [of "y + m div 12"]
  have "DayFromYear (y + m div 12) + month_start (m mod 12) (InLeapYear (y + m div 12))
          \<le> DayFromYear (y + 1 + m div 12) +
            month_start (m mod 12) (InLeapYear (y + 1 + m div 12))"
    unfolding eq by simp
  then show ?thesis
    by (simp add: MakeDay_def Let_def)
qed

lemma week_later:
  "MakeDate (MakeDay y m (d + 7)) t = MakeDate (MakeDay y m d) t + 7 * msPerDay"
  by (simp add: MakeDate_def MakeDay_def Let_def algebra_simps)

lemma budget_window_nonempty: "time_value (startDate b) \<le> budget_endDate b"
proof -
  let ?s = "startDate b"
  have "MakeDay (dyear ?s) (dmonth ?s) (dday ?s) \<le> MakeDay (dyear ?s) (dmonth ?s) (dday ?s + 7)"
    by (simp add: MakeDay_def Let_def)
  moreover note MakeDay_next_month [of "dyear ?s" "dmonth ?s" "dday ?s"]
    MakeDay_next_year [of "dyear ?s" "dmonth ?s" "dday ?s"]
  ultimately show ?thesis
    by (simp add: budget_endDate_def time_value_def MakeDate_def Let_def msPerDay_def)
qed

subsection \<open>The statement of the spending trends\<close>

text \<open>
  The statement has one placeholder outside its literals, \<open>$1\<close> for the user; \<open>$2\<close> lies
  inside the literal of the interval. Two values are bound, so the database refuses it.
\<close>

lemma dec_1_2: "dec (Suc 0) = ''1''" "dec (Suc (Suc 0)) = ''2''"
  by (simp_all add: dec.simps)

lemma render_spending_trends:
  "render 0 (spending_trends_sql uid months) =
     (''select TO_CHAR(expenses.date, 'YYYY-MM'), '' @
      ''SUM(CASE WHEN expenses.type = 'expense' THEN expenses.amount ELSE 0 END), '' @
      ''SUM(CASE WHEN expenses.type = 'income' THEN expenses.amount ELSE 0 END) '' @
      ''from expenses where (expenses.user_id = $1 and expenses.date >= '' @
      ''NOW() - INTERVAL '$2 months') '' @
      ''group by TO_CHAR(expenses.date, 'YYYY-MM') '' @
      ''order by TO_CHAR(expenses.date, 'YYYY-MM')'',
      [SqlText uid, SqlInt months])"
  by (simp add: spending_trends_sql_def dec_1_2 apostrophe_def)

lemma placeholders_spending_trends:
  "placeholders False (fst (render 0 (spending_trends_sql uid months))) = 1"
  unfolding render_spending_trends by (simp add: apostrophe_def)

lemma bound_values_spending_trends:
  "length (snd (render 0 (spending_trends_sql uid months))) = 2"
  unfolding render_spending_trends by simp

lemma execute_spending_trends:
  "execute answer (render 0 (spending_trends_sql uid months)) = Inl (BindMismatch 2 1)"
  unfolding render_spending_trends execute_def by (simp add: apostrophe_def)

subsection \<open>Evaluations on the example data\<close>

lemmas calendar_defs =
  time_value_def Date_local_def MakeDate_def MakeDay_def DayFromYear_def InLeapYear_def
  month_start_def msPerDay_def

lemma spent_march:
  "spent (calculateBudgetProgress (Some [spend_on 2024 2 10 a]) march_budget) = a"
  by (simp add: spent_sum in_budget_def budget_endDate_def march_budget_def spend_on_def
      calendar_defs)

lemma spent_april_first:
  "spent (calculateBudgetProgress (Some [spend_on 2024 3 1 50]) march_budget) = 50"
  by (simp add: spent_sum in_budget_def budget_endDate_def march_budget_def spend_on_def
      calendar_defs)

lemma april_first_is_end:
  "time_value (date (spend_on 2024 3 1 50)) = budget_endDate march_budget"
  by (simp add: budget_endDate_def march_budget_def spend_on_def calendar_defs)

lemma dashboard_sums:
  "thisMonthExp april_now ''u1'' [spend_on 2024 3 5 500] = 500"
  "thisMonthInc april_now ''u1'' [spend_on 2024 3 5 500] = 0"
  "lastMonthExp april_now ''u1'' [spend_on 2024 3 5 500] = 0"
  "lastMonthInc april_now ''u1'' [spend_on 2024 3 5 500] = 0"
  by (simp_all add: thisMonthExp_def thisMonthInc_def lastMonthExp_def lastMonthInc_def
      sum_where_def firstDayThisMonth_def firstDayLastMonth_def lastDayLastMonth_def
      april_now_def spend_on_def calendar_defs)

lemma quarterly_breakdown:
  "getCategoryBreakdown march_now some_categories ''u1'' march_rows ''quarterly'' =
     Inr [\<lparr>category = ''Food'', item_amount = 150, item_percentage = Fin (250 / 3),
            color = ''#EF4444'', transactionCount = 2\<rparr>,
          \<lparr>category = ''Transport'', item_amount = 30, item_percentage = Fin (50 / 3),
            color = ''#3B82F6'', transactionCount = 1\<rparr>]"
  by (simp add: getCategoryBreakdown_def breakdown_rows_def period_startDate_def Let_def
      march_now_def some_categories_def march_rows_def spend_in_def str_or_def js_div_def
      calendar_defs)

lemma late_march_in_march:
  "firstDayLastMonth april_now \<le> time_value (date late_march)"
  "time_value (date late_march) < firstDayThisMonth april_now"
  "firstDayThisMonth april_now \<le> time_value (date (spend_on 2024 3 10 40))"
  by (simp_all add: firstDayLastMonth_def firstDayThisMonth_def april_now_def late_march_def
      spend_on_def calendar_defs)

lemma late_march_missed:
  "lastMonthExp april_now ''u1'' [late_march] = 0"
  "lastMonthExp april_now ''u1'' [late_march, spend_on 2024 3 5 500] = 0"
  by (simp_all add: lastMonthExp_def sum_where_def firstDayLastMonth_def lastDayLastMonth_def
      april_now_def late_march_def spend_on_def calendar_defs)

lemma late_march_change:
  "expenseChange (getDashboardStats april_now ''u1'' [late_march, spend_on 2024 3 5 500]) = Fin 0"
  by (simp add: getDashboardStats_def Let_def late_march_missed)

lemma april_in_lastMonth:
  "getCategoryBreakdown april_now [] ''u1'' [spend_on 2024 3 10 40] ''lastMonth'' =
     Inr [\<lparr>category = ''Uncategorized'', item_amount = 40, item_percentage = Fin 100,
            color = ''#6B7280'', transactionCount = 1\<rparr>]"
  by (simp add: getCategoryBreakdown_def breakdown_rows_def period_startDate_def Let_def
      april_now_def spend_on_def str_or_def js_div_def calendar_defs)










section \<open>Status of a budget\<close>

text \<open>
  C1. The status of a budget is decided in this order: \<open>over-budget\<close> when the percentage
  is at least 100, else \<open>warning\<close> when it is at least \<open>alertThreshold * 100\<close>, else
  \<open>on-track\<close>. For a budget of 200 with threshold 0.8, a spent of 180 gives \<open>warning\<close>, and
  a spent of 220 gives \<open>over-budget\<close> with \<open>remaining = -20\<close>.
\<close>

theorem status_precedence:
  "status (calculateBudgetProgress (Some es) b) =
     (if js_ge (percentage (calculateBudgetProgress (Some es) b)) 100 then over_budget
      else if js_ge (percentage (calculateBudgetProgress (Some es) b))
                (Number_nullable (alertThreshold b) * 100) then warning
      else on_track) \<and>
   (budget_amount b = 200 \<and> alertThreshold b = Some (4 / 5) \<and>
    spent (calculateBudgetProgress (Some es) b) = 180 \<longrightarrow>
      status (calculateBudgetProgress (Some es) b) = warning) \<and>
   (budget_amount b = 200 \<and> alertThreshold b = Some (4 / 5) \<and>
    spent (calculateBudgetProgress (Some es) b) = 220 \<longrightarrow>
      status (calculateBudgetProgress (Some es) b) = over_budget \<and>
      remaining (calculateBudgetProgress (Some es) b) = - 20)"
proof (intro conjI impI)
  show "status (calculateBudgetProgress (Some es) b) =
     (if js_ge (percentage (calculateBudgetProgress (Some es) b)) 100 then over_budget
      else if js_ge (percentage (calculateBudgetProgress (Some es) b))
                (Number_nullable (alertThreshold b) * 100) then warning
      else on_track)"
    by (rule status_eq)
next
  assume "budget_amount b = 200 \<and> alertThreshold b = Some (4 / 5) \<and>
    spent (calculateBudgetProgress (Some es) b) = 180"
  then show "status (calculateBudgetProgress (Some es) b) = warning"
    by (simp add: status_eq percentage_eq)
next
  assume h: "budget_amount b = 200 \<and> alertThreshold b = Some (4 / 5) \<and>
    spent (calculateBudgetProgress (Some es) b) = 220"
  then show "status (calculateBudgetProgress (Some es) b) = over_budget"
    by (simp add: status_eq percentage_eq)
  from h show "remaining (calculateBudgetProgress (Some es) b) = - 20"
    by (simp add: remaining_eq)
qed

theorem status_precedence_witness:
  "status (calculateBudgetProgress (Some [spend_on 2024 2 10 180]) march_budget) = warning \<and>
   status (calculateBudgetProgress (Some [spend_on 2024 2 10 220]) march_budget) = over_budget \<and>
   remaining (calculateBudgetProgress (Some [spend_on 2024 2 10 220]) march_budget) = - 20"
proof -
  have b: "budget_amount march_budget = 200" "alertThreshold march_budget = Some (4 / 5)"
    by (simp_all add: march_budget_def)
  have a: "budget_amount march_budget = 200 \<and> alertThreshold march_budget = Some (4 / 5) \<and>
      spent (calculateBudgetProgress (Some [spend_on 2024 2 10 180]) march_budget) = 180"
    using b by (simp add: spent_march)
  have c: "budget_amount march_budget = 200 \<and> alertThreshold march_budget = Some (4 / 5) \<and>
      spent (calculateBudgetProgress (Some [spend_on 2024 2 10 220]) march_budget) = 220"
    using b by (simp add: spent_march)
  from a status_precedence [of "[spend_on 2024 2 10 180]" march_budget]
  have "status (calculateBudgetProgress (Some [spend_on 2024 2 10 180]) march_budget) = warning"
    by blast
  moreover from c status_precedence [of "[spend_on 2024 2 10 220]" march_budget]
  have "status (calculateBudgetProgress (Some [spend_on 2024 2 10 220]) march_budget) = over_budget \<and>
   remaining (calculateBudgetProgress (Some [spend_on 2024 2 10 220]) march_budget) = - 20"
    by blast
  ultimately show ?thesis by simp
qed

section \<open>Months of the spending trends\<close>



section \<open>Unrecognised period tokens\<close>

text \<open>
  C3, as the claim states it, fails: for a token that is none of \<open>thisMonth\<close>,
  \<open>lastMonth\<close> and \<open>thisYear\<close>, \<open>getCategoryBreakdown\<close> does not fail with
  \<open>InvalidPeriodError\<close>; it returns a breakdown.
\<close>

theorem unrecognized_period_no_error:
  "getCategoryBreakdown march_now some_categories ''u1'' march_rows ''quarterly'' \<noteq>
     Inl InvalidPeriodError \<and>
   getCategoryBreakdown march_now some_categories ''u1'' march_rows ''quarterly'' =
     Inr [\<lparr>category = ''Food'', item_amount = 150, item_percentage = Fin (250 / 3),
            color = ''#EF4444'', transactionCount = 2\<rparr>,
          \<lparr>category = ''Transport'', item_amount = 30, item_percentage = Fin (50 / 3),
            color = ''#3B82F6'', transactionCount = 1\<rparr>]"
  by (simp add: quarterly_breakdown)

text \<open>
  C3, amended. For a token that is none of \<open>thisMonth\<close>, \<open>lastMonth\<close> and \<open>thisYear\<close>,
  \<open>getCategoryBreakdown\<close> itself takes the window of \<open>thisMonth\<close> (the \<open>default\<close> branch
  of its \<open>switch\<close>) and returns a result, never an error; the route hands such a token
  over and so answers as for \<open>thisMonth\<close> too.
\<close>

theorem unrecognized_period_is_thisMonth:
  assumes "p \<noteq> ''thisMonth''" and "p \<noteq> ''lastMonth''" and "p \<noteq> ''thisYear''"
  shows "getCategoryBreakdown now cats uid rows p =
           getCategoryBreakdown now cats uid rows ''thisMonth'' \<and>
         (\<exists>items. getCategoryBreakdown now cats uid rows p = Inr items) \<and>
         category_breakdown_route now cats uid rows (Some p) =
           getCategoryBreakdown now cats uid rows ''thisMonth''"
proof -
  from assms have s: "period_startDate now p = period_startDate now ''thisMonth''"
    by (simp add: period_startDate_def)
  then have eq: "getCategoryBreakdown now cats uid rows p =
           getCategoryBreakdown now cats uid rows ''thisMonth''"
    by (simp add: getCategoryBreakdown_def)
  have inr: "\<exists>items. getCategoryBreakdown now cats uid rows p = Inr items"
    by (simp add: getCategoryBreakdown_def Let_def)
  have "category_breakdown_route now cats uid rows (Some p) =
           getCategoryBreakdown now cats uid rows ''thisMonth''"
    using eq by (cases "p = []") (simp_all add: category_breakdown_route_def str_or_def)
  with eq inr show ?thesis by simp
qed

theorem unrecognized_period_is_thisMonth_witness:
  "getCategoryBreakdown march_now some_categories ''u1'' march_rows ''quarterly'' =
     getCategoryBreakdown march_now some_categories ''u1'' march_rows ''thisMonth'' \<and>
   category_breakdown_route march_now some_categories ''u1'' march_rows (Some ''quarterly'') =
     getCategoryBreakdown march_now some_categories ''u1'' march_rows ''thisMonth''"
proof -
  have "''quarterly'' \<noteq> ''thisMonth''" "''quarterly'' \<noteq> ''lastMonth''"
    "''quarterly'' \<noteq> ''thisYear''"
    by simp_all
  from unrecognized_period_is_thisMonth [OF this] show ?thesis by simp
qed

section \<open>The window of last month\<close>

text \<open>
  C4. The claim asks that \<open>lastMonth\<close> cover the dates from the first day of the previous
  month up to, but not including, the first day of the current month. The code is
  evaluated here on 15 April 2024. \<open>getDashboardStats\<close> bounds last month by
  \<open>between(firstDayLastMonth, lastDayLastMonth)\<close>, and \<open>lastDayLastMonth\<close> is 31 March at
  00:00: an expense of 100 on 31 March at 15:00 is left out of last month's expenses, and
  \<open>expenseChange\<close> is 0 where 400 is due. \<open>getCategoryBreakdown\<close> bounds \<open>lastMonth\<close> from
  below only: an expense of 10 April is part of the breakdown of last month.
\<close>

theorem lastMonth_window_evaluated:
  "firstDayLastMonth april_now \<le> time_value (date late_march) \<and>
   time_value (date late_march) < firstDayThisMonth april_now \<and>
   lastMonthExp april_now ''u1'' [late_march] = 0 \<and>
   expenseChange (getDashboardStats april_now ''u1'' [late_march, spend_on 2024 3 5 500]) = Fin 0 \<and>
   firstDayThisMonth april_now \<le> time_value (date (spend_on 2024 3 10 40)) \<and>
   getCategoryBreakdown april_now [] ''u1'' [spend_on 2024 3 10 40] ''lastMonth'' =
     Inr [\<lparr>category = ''Uncategorized'', item_amount = 40, item_percentage = Fin 100,
            color = ''#6B7280'', transactionCount = 1\<rparr>]"
  using late_march_in_march late_march_missed(1) late_march_change april_in_lastMonth
  by blast

section \<open>Category breakdown and its total\<close>




section \<open>Window of a budget\<close>

text \<open>
  C6, as the claim states it, fails: the filter tests \<open>expenseDate <= endDate\<close>, so an
  expense dated exactly at the end of the window is counted. The budget starts on
  1 March 2024 and is monthly; the expense is dated 1 April 2024, 00:00.
\<close>

theorem window_end_is_counted:
  "time_value (date (spend_on 2024 3 1 50)) = budget_endDate march_budget \<and>
   spent (calculateBudgetProgress (Some [spend_on 2024 3 1 50]) march_budget) = 50 \<and>
   spent (calculateBudgetProgress (Some [spend_on 2024 3 1 50]) march_budget) \<noteq> 0"
  by (simp add: april_first_is_end spent_april_first)

text \<open>
  C6, amended. The window of a budget is computed from its \<open>startDate\<close>: its end is the
  start plus 7 days for \<open>weekly\<close>, the start with the year moved by one for \<open>yearly\<close>, and
  the start with the month moved by one otherwise (calendar arithmetic, an overflowing day
  carrying into the next month). The window is closed at both ends: \<open>spent\<close> sums the
  expense-type rows of the budget's category dated from the start to the end, both
  included, so an expense dated exactly at the end is counted.
\<close>

theorem budget_window_closed:
  "budget_endDate b =
     (if period b = ''weekly'' then time_value (startDate b) + 7 * msPerDay
      else if period b = ''yearly''
        then time_value ((startDate b)\<lparr>dyear := dyear (startDate b) + 1\<rparr>)
      else time_value ((startDate b)\<lparr>dmonth := dmonth (startDate b) + 1\<rparr>)) \<and>
   spent (calculateBudgetProgress (Some es) b) =
     sum_list (map amount (filter (\<lambda>e. etype e = Expense \<and>
        time_value (startDate b) \<le> time_value (date e) \<and>
        time_value (date e) \<le> budget_endDate b \<and>
        (if truthy (budget_categoryId b) then categoryId e = budget_categoryId b else True)) es)) \<and>
   (etype e = Expense \<and> time_value (date e) = budget_endDate b \<and>
    (truthy (budget_categoryId b) \<longrightarrow> categoryId e = budget_categoryId b) \<longrightarrow>
      spent (calculateBudgetProgress (Some [e]) b) = amount e)"
proof -
  have e1: "budget_endDate b =
     (if period b = ''weekly'' then time_value (startDate b) + 7 * msPerDay
      else if period b = ''yearly''
        then time_value ((startDate b)\<lparr>dyear := dyear (startDate b) + 1\<rparr>)
      else time_value ((startDate b)\<lparr>dmonth := dmonth (startDate b) + 1\<rparr>))"
    by (simp add: budget_endDate_def time_value_def Let_def week_later)
  have e2: "spent (calculateBudgetProgress (Some es) b) =
     sum_list (map amount (filter (\<lambda>e. etype e = Expense \<and>
        time_value (startDate b) \<le> time_value (date e) \<and>
        time_value (date e) \<le> budget_endDate b \<and>
        (if truthy (budget_categoryId b) then categoryId e = budget_categoryId b else True)) es))"
    by (simp only: spent_sum in_budget_def [abs_def])
  have e3: "etype e = Expense \<and> time_value (date e) = budget_endDate b \<and>
    (truthy (budget_categoryId b) \<longrightarrow> categoryId e = budget_categoryId b) \<longrightarrow>
      spent (calculateBudgetProgress (Some [e]) b) = amount e"
    using budget_window_nonempty [of b] by (simp add: spent_sum in_budget_def)
  from e1 e2 e3 show ?thesis by blast
qed

theorem budget_window_closed_witness:
  "time_value (date (spend_on 2024 3 1 50)) = budget_endDate march_budget \<and>
   budget_endDate march_budget = 1711929600000 \<and>
   spent (calculateBudgetProgress (Some [spend_on 2024 3 1 50]) march_budget) = 50"
proof -
  have h: "etype (spend_on 2024 3 1 50) = Expense \<and>
      time_value (date (spend_on 2024 3 1 50)) = budget_endDate march_budget \<and>
      (truthy (budget_categoryId march_budget) \<longrightarrow>
         categoryId (spend_on 2024 3 1 50) = budget_categoryId march_budget)"
    using april_first_is_end by (simp add: spend_on_def march_budget_def)
  have v: "budget_endDate march_budget = 1711929600000"
    by (simp add: budget_endDate_def march_budget_def calendar_defs)
  from budget_window_closed [of march_budget "[]" "spend_on 2024 3 1 50"] h
  have "spent (calculateBudgetProgress (Some [spend_on 2024 3 1 50]) march_budget) =
      amount (spend_on 2024 3 1 50)"
    by blast
  with h v show ?thesis by (simp add: spend_on_def)
qed

section \<open>Ratios with a zero denominator\<close>

text \<open>
  C7. Each of the four ratios is 0 when its denominator is 0, and none of them is ever NaN
  or an infinity: \<open>expenseChange\<close> when last month's expenses are 0 (whatever this
  month's are), \<open>incomeChange\<close> when last month's income is 0, \<open>savingsRate\<close> when this
  month's income is 0, and the percentage of a budget whose amount is 0.
\<close>

theorem division_guard:
  "(lastMonthExp now uid rows = 0 \<longrightarrow> expenseChange (getDashboardStats now uid rows) = Fin 0) \<and>
   (lastMonthInc now uid rows = 0 \<longrightarrow> incomeChange (getDashboardStats now uid rows) = Fin 0) \<and>
   (thisMonthInc now uid rows = 0 \<longrightarrow> savingsRate (getDashboardStats now uid rows) = Fin 0) \<and>
   (budget_amount b = 0 \<longrightarrow> percentage (calculateBudgetProgress es b) = Fin 0) \<and>
   is_finite (expenseChange (getDashboardStats now uid rows)) \<and>
   is_finite (incomeChange (getDashboardStats now uid rows)) \<and>
   is_finite (savingsRate (getDashboardStats now uid rows)) \<and>
   is_finite (percentage (calculateBudgetProgress es b))"
proof -
  have p: "percentage (calculateBudgetProgress es b) =
      (case es of None \<Rightarrow> Fin 0
       | Some xs \<Rightarrow>
           (if 0 < budget_amount b
            then js_times (js_div (spent (calculateBudgetProgress es b)) (budget_amount b)) 100
            else Fin 0))"
    by (simp add: calculateBudgetProgress_def Let_def split: option.splits)
  have "is_finite (percentage (calculateBudgetProgress es b))"
    unfolding p by (cases es) (simp_all add: js_div_def)
  moreover have "budget_amount b = 0 \<longrightarrow> percentage (calculateBudgetProgress es b) = Fin 0"
    unfolding p by (cases es) simp_all
  ultimately show ?thesis
    by (simp add: getDashboardStats_def Let_def js_div_def)
qed

theorem division_guard_witness:
  "thisMonthExpenses (getDashboardStats april_now ''u1'' [spend_on 2024 3 5 500]) = 500 \<and>
   expenseChange (getDashboardStats april_now ''u1'' [spend_on 2024 3 5 500]) = Fin 0 \<and>
   incomeChange (getDashboardStats april_now ''u1'' [spend_on 2024 3 5 500]) = Fin 0 \<and>
   savingsRate (getDashboardStats april_now ''u1'' [spend_on 2024 3 5 500]) = Fin 0 \<and>
   spent (calculateBudgetProgress (Some [spend_on 2024 2 10 180]) free_budget) = 180 \<and>
   percentage (calculateBudgetProgress (Some [spend_on 2024 2 10 180]) free_budget) = Fin 0"
proof -
  have z: "budget_amount free_budget = 0" by (simp add: free_budget_def)
  have s: "spent (calculateBudgetProgress (Some [spend_on 2024 2 10 180]) free_budget) = 180"
    by (simp add: calculateBudgetProgress_def Let_def in_budget_def budget_endDate_def
        free_budget_def spend_on_def calendar_defs)
  have t: "thisMonthExpenses (getDashboardStats april_now ''u1'' [spend_on 2024 3 5 500]) = 500"
    by (simp add: getDashboardStats_def Let_def dashboard_sums)
  from division_guard [of april_now "''u1''" "[spend_on 2024 3 5 500]" free_budget
      "Some [spend_on 2024 2 10 180]"] dashboard_sums z s t
  show ?thesis by simp
qed

section \<open>Total balance\<close>



section \<open>Order of the spending trends\<close>

text \<open>
  C9. The claim asks for a list, ascending by month, whose entries have
  \<open>netSavings = totalIncome - totalExpenses\<close>. The query orders by the month and the result
  computes \<open>netSavings\<close> so, but no call returns a list: \<open>months\<close> is written between the
  apostrophes of the interval, where it becomes the text \<open>$2\<close> of a literal and not a
  placeholder. The statement has one parameter and two bound values, and the database
  refuses it, for every user, every number of months and every table.
\<close>

theorem spending_trends_rejected:
  "placeholders False (fst (render 0 (spending_trends_sql uid months))) = 1 \<and>
   length (snd (render 0 (spending_trends_sql uid months))) = 2 \<and>
   getSpendingTrends answer uid months = Inl (BindMismatch 2 1)"
  by (simp add: placeholders_spending_trends bound_values_spending_trends
      getSpendingTrends_def execute_spending_trends)

section \<open>Properties of the goal progress\<close>

text \<open>
  C10. For non-negative \<open>current\<close> and \<open>target\<close> the goal progress is a finite number
  between 0 and 100: it is 0 when the target is 0, and \<open>(current / target) * 100\<close>
  clamped at 100 otherwise.
\<close>

theorem getProgressPercentage_range:
  assumes "0 \<le> current" and "0 \<le> target"
  shows "\<exists>p. getProgressPercentage current target = Fin p \<and> 0 \<le> p \<and> p \<le> 100 \<and>
           p = (if target = 0 then 0 else min 100 (current / target * 100))"
proof (cases "target = 0")
  case True
  then show ?thesis by (simp add: getProgressPercentage_def)
next
  case False
  with assms have "0 < target" by simp
  with assms have "0 \<le> current / target * 100" by simp
  with False show ?thesis
    by (simp add: getProgressPercentage_def js_div_def)
qed

theorem getProgressPercentage_range_witness:
  "(0::rat) \<le> 1500 \<and> (0::rat) \<le> 1000 \<and> getProgressPercentage 1500 1000 = Fin 100"
  using getProgressPercentage_range [of 1500 1000]
  by (auto simp: getProgressPercentage_def js_div_def)

end
